theory Spec2Isabelle
  imports Main
begin

section \<open>Makegen: the detection engine of internal/detector/analyzer.go\<close>

text \<open>
  Go strings are byte sequences; they are modelled as \<open>string\<close> (a list of 8-bit
  characters), one \<open>char\<close> per byte. Logging (\<open>a.logger\<close>) only writes to stderr and is left
  out of the model.
\<close>

subsection \<open>The functions of package strings that the analyzer calls\<close>

text \<open>\<open>strings.HasPrefix(s, prefix)\<close>: \<open>len(s) >= len(prefix) && s[:len(prefix)] == prefix\<close>.\<close>

definition HasPrefix :: "string \<Rightarrow> string \<Rightarrow> bool" where
  "HasPrefix s pre = (length pre \<le> length s \<and> take (length pre) s = pre)"

text \<open>\<open>strings.HasSuffix(s, suffix)\<close>.\<close>

definition HasSuffix :: "string \<Rightarrow> string \<Rightarrow> bool" where
  "HasSuffix s suf = (length suf \<le> length s \<and> drop (length s - length suf) s = suf)"

text \<open>\<open>strings.TrimSuffix(s, suffix)\<close>.\<close>

definition TrimSuffix :: "string \<Rightarrow> string \<Rightarrow> string" where
  "TrimSuffix s suf = (if HasSuffix s suf then take (length s - length suf) s else s)"

text \<open>\<open>strings.Contains(s, substr)\<close>: \<open>substr\<close> occurs at some offset of \<open>s\<close>.\<close>

fun Contains :: "string \<Rightarrow> string \<Rightarrow> bool" where
  "Contains [] sub = (sub = [])"
| "Contains (c # cs) sub = (HasPrefix (c # cs) sub \<or> Contains cs sub)"

text \<open>
  \<open>strings.Split(s, "\n")\<close>: the pieces between line feeds; always at least one piece
  (the split of the empty string is one empty piece).
\<close>

fun splitLines :: "string \<Rightarrow> string list" where
  "splitLines [] = [[]]"
| "splitLines (c # cs) =
     (if c = CHR 0x0A then [] # splitLines cs
      else (case splitLines cs of
              [] \<Rightarrow> [[c]]
            | l # ls \<Rightarrow> (c # l) # ls))"

text \<open>
  \<open>strings.TrimSpace\<close> removes leading and trailing white space as \<open>unicode.IsSpace\<close>
  defines it. On bytes these are the six ASCII characters tab, line feed, vertical tab,
  form feed, carriage return and space, and the UTF-8 encodings of U+0085, U+00A0, U+1680,
  U+2000 to U+200A, U+2028, U+2029, U+202F, U+205F and U+3000. \<open>spaceWidth s\<close> is the
  number of bytes of the white-space rune that \<open>s\<close> starts with, \<open>0\<close> when it starts with
  none; \<open>spaceWidthEnd\<close> reads the reversed string, for the rune that a string ends with.
\<close>

definition asciiSpace :: "char \<Rightarrow> bool" where
  "asciiSpace c = (c = CHR 0x09 \<or> c = CHR 0x0A \<or> c = CHR 0x0B \<or> c = CHR 0x0C
                   \<or> c = CHR 0x0D \<or> c = CHR 0x20)"

definition generalPunctuationSpace :: "char \<Rightarrow> bool" where
  "generalPunctuationSpace c =
     ((of_char c :: nat) \<in> set [0x80 ..< 0x8B] \<or> c = CHR 0xA8 \<or> c = CHR 0xA9 \<or> c = CHR 0xAF)"

fun spaceWidth :: "string \<Rightarrow> nat" where
  "spaceWidth [] = 0"
| "spaceWidth [a] = (if asciiSpace a then 1 else 0)"
| "spaceWidth [a, b] =
     (if asciiSpace a then 1
      else if a = CHR 0xC2 \<and> (b = CHR 0x85 \<or> b = CHR 0xA0) then 2
      else 0)"
| "spaceWidth (a # b # c # rest) =
     (if asciiSpace a then 1
      else if a = CHR 0xC2 \<and> (b = CHR 0x85 \<or> b = CHR 0xA0) then 2
      else if a = CHR 0xE1 \<and> b = CHR 0x9A \<and> c = CHR 0x80 then 3
      else if a = CHR 0xE2 \<and> b = CHR 0x80 \<and> generalPunctuationSpace c then 3
      else if a = CHR 0xE2 \<and> b = CHR 0x81 \<and> c = CHR 0x9F then 3
      else if a = CHR 0xE3 \<and> b = CHR 0x80 \<and> c = CHR 0x80 then 3
      else 0)"

fun spaceWidthEnd :: "string \<Rightarrow> nat" where
  "spaceWidthEnd [] = 0"
| "spaceWidthEnd [a] = (if asciiSpace a then 1 else 0)"
| "spaceWidthEnd [b, a] =
     (if asciiSpace b then 1
      else if a = CHR 0xC2 \<and> (b = CHR 0x85 \<or> b = CHR 0xA0) then 2
      else 0)"
| "spaceWidthEnd (c # b # a # rest) =
     (if asciiSpace c then 1
      else if a = CHR 0xE1 \<and> b = CHR 0x9A \<and> c = CHR 0x80 then 3
      else if a = CHR 0xE2 \<and> b = CHR 0x80 \<and> generalPunctuationSpace c then 3
      else if a = CHR 0xE2 \<and> b = CHR 0x81 \<and> c = CHR 0x9F then 3
      else if a = CHR 0xE3 \<and> b = CHR 0x80 \<and> c = CHR 0x80 then 3
      else if b = CHR 0xC2 \<and> (c = CHR 0x85 \<or> c = CHR 0xA0) then 2
      else 0)"

lemma spaceWidth_le: "spaceWidth s \<le> length s"
  by (induction s rule: spaceWidth.induct) auto

lemma spaceWidthEnd_le: "spaceWidthEnd s \<le> length s"
  by (induction s rule: spaceWidthEnd.induct) auto

function trimLeft :: "string \<Rightarrow> string" where
  "trimLeft s = (if spaceWidth s = 0 then s else trimLeft (drop (spaceWidth s) s))"
  by pat_completeness auto
termination
proof (relation "measure length")
  show "wf (measure length)" by simp
next
  fix s :: string
  assume "spaceWidth s \<noteq> 0"
  moreover have "spaceWidth s \<le> length s" by (rule spaceWidth_le)
  ultimately show "(drop (spaceWidth s) s, s) \<in> measure length" by simp
qed

function trimLeftRev :: "string \<Rightarrow> string" where
  "trimLeftRev s = (if spaceWidthEnd s = 0 then s else trimLeftRev (drop (spaceWidthEnd s) s))"
  by pat_completeness auto
termination
proof (relation "measure length")
  show "wf (measure length)" by simp
next
  fix s :: string
  assume "spaceWidthEnd s \<noteq> 0"
  moreover have "spaceWidthEnd s \<le> length s" by (rule spaceWidthEnd_le)
  ultimately show "(drop (spaceWidthEnd s) s, s) \<in> measure length" by simp
qed

declare trimLeft.simps [simp del] trimLeftRev.simps [simp del]

definition TrimSpace :: "string \<Rightarrow> string" where
  "TrimSpace s = rev (trimLeftRev (rev (trimLeft s)))"

subsection \<open>Data model\<close>

text \<open>\<open>type Framework struct\<close>. \<open>Commands\<close> is a Go map, kept as an association list.\<close>

record Framework =
  Name :: string
  Type :: string
  Files :: "string list"
  Commands :: "(string \<times> string) list"
  Port :: int
  DevTools :: "string list"

text \<open>A composite literal \<open>Framework{Name: n, Type: t, Port: p}\<close>; the other fields are zero.\<close>

definition mkFramework :: "string \<Rightarrow> string \<Rightarrow> int \<Rightarrow> Framework" where
  "mkFramework n t p =
     \<lparr>Name = n, Type = t, Files = [], Commands = [], Port = p, DevTools = []\<rparr>"

text \<open>\<open>type Result struct\<close>.\<close>

record Result =
  Language :: string
  Frameworks :: "Framework list"
  DockerDetected :: bool
  DockerServices :: "string list"
  TestDirFound :: bool
  BuildDirFound :: bool
  HasVendor :: bool
  HasModules :: bool
  DependencyFiles :: "string list"
  ConfigFiles :: "string list"
  MainEntrypoint :: string
  ProjectRoot :: string

text \<open>The composite literal \<open>&Result{ProjectRoot: projectPath}\<close>.\<close>

definition newResult :: "string \<Rightarrow> Result" where
  "newResult projectPath =
     \<lparr>Language = [], Frameworks = [], DockerDetected = False, DockerServices = [],
      TestDirFound = False, BuildDirFound = False, HasVendor = False, HasModules = False,
      DependencyFiles = [], ConfigFiles = [], MainEntrypoint = [],
      ProjectRoot = projectPath\<rparr>"

subsection \<open>The world outside the analyzer\<close>

text \<open>
  What the analyzer reads from package \<open>os\<close>, seen from the analysed root: \<open>stat w n\<close> is
  the outcome of \<open>os.Stat(filepath.Join(path, n))\<close> (\<open>None\<close> when it returns an error),
  \<open>readFileBytes w n\<close> that of \<open>os.ReadFile(filepath.Join(path, n))\<close>, and \<open>readDir w\<close> that
  of \<open>os.ReadDir(path)\<close>, whose entries come in the order the file system gives them.
  Two standard-library functions are taken from the world as well: \<open>jsonUnmarshal\<close> is
  \<open>json.Unmarshal\<close> into a \<open>map[string]interface{}\<close> (\<open>None\<close> on a parse error, else the
  members of the top-level object), and \<open>toLower\<close> is \<open>strings.ToLower\<close>.
\<close>

datatype FileInfo = RegularFile | Directory

datatype error = PathError string

record DirEntry =
  entryName :: string
  entryIsDir :: bool

datatype json = JObject "(string \<times> json) list" | JArray "json list" | JString string
  | JNumber int | JBool bool | JNull

record World =
  stat :: "string \<Rightarrow> FileInfo option"
  readFileBytes :: "string \<Rightarrow> string option"
  readDir :: "error + DirEntry list"
  jsonUnmarshal :: "string \<Rightarrow> (string \<times> json) list option"
  toLower :: "string \<Rightarrow> string"

subsection \<open>Utility functions\<close>

text \<open>\<open>fileExists\<close>: \<open>_, err := os.Stat(path); return err == nil\<close>.\<close>

definition fileExists :: "World \<Rightarrow> string \<Rightarrow> bool" where
  "fileExists w p = (case stat w p of None \<Rightarrow> False | Some info \<Rightarrow> True)"

text \<open>\<open>dirExists\<close>: \<open>info, err := os.Stat(path); return err == nil && info.IsDir()\<close>.\<close>

definition dirExists :: "World \<Rightarrow> string \<Rightarrow> bool" where
  "dirExists w p = (case stat w p of None \<Rightarrow> False | Some info \<Rightarrow> info = Directory)"

text \<open>\<open>readFile\<close>: the content, or the wrapped error of \<open>os.ReadFile\<close>.\<close>

definition readFile :: "World \<Rightarrow> string \<Rightarrow> error + string" where
  "readFile w p = (case readFileBytes w p of
                     None \<Rightarrow> Inl (PathError (''failed to read file: '' @ p))
                   | Some content \<Rightarrow> Inr content)"

text \<open>\<open>hasContent\<close>: case-insensitive containment.\<close>

definition hasContent :: "World \<Rightarrow> string \<Rightarrow> string \<Rightarrow> bool" where
  "hasContent w content search = Contains (toLower w content) (toLower w search)"

subsection \<open>Docker detection\<close>

text \<open>
  \<open>removeDuplicates\<close>: the loop over \<open>slice\<close> with the \<open>seen\<close> map (a missing key reads
  \<open>false\<close>) and the \<open>result\<close> slice it appends to.
\<close>

fun removeDuplicates_loop :: "string list \<Rightarrow> (string \<Rightarrow> bool) \<Rightarrow> string list \<Rightarrow> string list" where
  "removeDuplicates_loop [] seen result = result"
| "removeDuplicates_loop (item # rest) seen result =
     (if \<not> seen item then removeDuplicates_loop rest (seen(item := True)) (result @ [item])
      else removeDuplicates_loop rest seen result)"

definition removeDuplicates :: "string list \<Rightarrow> string list" where
  "removeDuplicates slice = removeDuplicates_loop slice (\<lambda>k. False) []"

text \<open>
  The body of the \<open>for _, line := range lines\<close> loop of \<open>parseDockerCompose\<close>, on the pair
  of \<open>inServices\<close> and \<open>result.DockerServices\<close>. \<open>line[0:1]\<close> and \<open>line[1:2]\<close> are
  evaluated under \<open>len(line) >= 2\<close>, \<open>line[0]\<close> under \<open>len(line) > 0\<close>, so neither
  goes out of range.
\<close>

definition composeLine :: "string \<Rightarrow> bool \<times> string list \<Rightarrow> bool \<times> string list" where
  "composeLine line st =
     (let inServices = fst st; services = snd st; trimmed = TrimSpace line in
      if trimmed = [] \<or> HasPrefix trimmed ''#'' then (inServices, services)
      else if HasPrefix trimmed ''services:'' then (True, services)
      else if inServices then
        (if length line > 0 \<and> hd line \<noteq> CHR '' '' \<and> hd line \<noteq> CHR 0x09
              \<and> \<not> HasPrefix trimmed ''services:''
         then (False, services)
         else if length line \<ge> 2 \<and> take 1 line = '' '' \<and> take 1 (drop 1 line) \<noteq> '' ''
              \<and> HasSuffix trimmed '':''
         then (let serviceName = TrimSuffix (TrimSpace line) '':'' in
               if serviceName \<noteq> [] \<and> \<not> Contains serviceName '' ''
               then (inServices, services @ [serviceName])
               else (inServices, services))
         else (inServices, services))
      else (inServices, services))"

fun composeLines :: "string list \<Rightarrow> bool \<times> string list \<Rightarrow> bool \<times> string list" where
  "composeLines [] st = st"
| "composeLines (line # rest) st = composeLines rest (composeLine line st)"

text \<open>
  \<open>extractServices content services\<close> is \<open>parseDockerCompose\<close> after a successful read:
  the loop over the lines of \<open>content\<close>, started outside the services block with the
  services recorded so far, then \<open>removeDuplicates\<close>.
\<close>

definition extractServices :: "string \<Rightarrow> string list \<Rightarrow> string list" where
  "extractServices content services =
     removeDuplicates (snd (composeLines (splitLines content) (False, services)))"

definition parseDockerCompose :: "World \<Rightarrow> string \<Rightarrow> Result \<Rightarrow> Result" where
  "parseDockerCompose w path result =
     (case readFile w path of
        Inl err \<Rightarrow> result
      | Inr content \<Rightarrow>
          result\<lparr>DockerServices := extractServices content (DockerServices result)\<rparr>)"

definition detectDocker :: "World \<Rightarrow> Result \<Rightarrow> Result \<times> error option" where
  "detectDocker w result0 =
     (let result = (if fileExists w ''Dockerfile''
                    then result0\<lparr>DockerDetected := True\<rparr> else result0);
          result = (if fileExists w ''docker-compose.yml''
                    then parseDockerCompose w ''docker-compose.yml''
                           (result\<lparr>DockerDetected := True\<rparr>)
                    else result);
          result = (if fileExists w ''docker-compose.yaml''
                    then parseDockerCompose w ''docker-compose.yaml''
                           (result\<lparr>DockerDetected := True\<rparr>)
                    else result)
      in (result, None))"

subsection \<open>Language detection\<close>

text \<open>
  \<open>detectLanguage\<close>: the chain of marker probes, each branch returning at once. The
  returned error is \<open>nil\<close> on every path.
\<close>

definition detectLanguage :: "World \<Rightarrow> Result \<Rightarrow> Result \<times> error option" where
  "detectLanguage w result =
     (if fileExists w ''go.mod''
      then (result\<lparr>Language := ''go'', HasModules := True\<rparr>, None)
      else if fileExists w ''requirements.txt'' \<or> fileExists w ''setup.py''
              \<or> fileExists w ''pyproject.toml''
      then (result\<lparr>Language := ''python''\<rparr>, None)
      else if fileExists w ''package.json''
      then ((if fileExists w ''tsconfig.json''
             then result\<lparr>Language := ''typescript''\<rparr>
             else result\<lparr>Language := ''javascript''\<rparr>)\<lparr>HasModules := True\<rparr>, None)
      else if fileExists w ''Cargo.toml''
      then (result\<lparr>Language := ''rust''\<rparr>, None)
      else if fileExists w ''pom.xml''
      then (result\<lparr>Language := ''java''\<rparr>, None)
      else if fileExists w ''build.gradle'' \<or> fileExists w ''build.gradle.kts''
      then (result\<lparr>Language := ''java''\<rparr>, None)
      else if fileExists w ''Gemfile''
      then (result\<lparr>Language := ''ruby''\<rparr>, None)
      else if fileExists w ''composer.json''
      then (result\<lparr>Language := ''php''\<rparr>, None)
      else if fileExists w ''CMakeLists.txt'' \<or> fileExists w ''Makefile''
      then (result\<lparr>Language := ''cpp''\<rparr>, None)
      else (result\<lparr>Language := ''unknown''\<rparr>, None))"

subsection \<open>Framework detection\<close>

definition detectGoFrameworks :: "World \<Rightarrow> Result \<Rightarrow> Result" where
  "detectGoFrameworks w result0 =
     (case readFile w ''go.mod'' of
        Inl err \<Rightarrow> result0
      | Inr content \<Rightarrow>
         (let result = result0;
              result = (if hasContent w content ''github.com/gin-gonic/gin''
                    then result\<lparr>Frameworks := Frameworks result
                           @ [mkFramework ''Gin'' ''web'' 3000]\<rparr>
                    else result);
              result = (if hasContent w content ''github.com/labstack/echo''
                    then result\<lparr>Frameworks := Frameworks result
                           @ [mkFramework ''Echo'' ''web'' 8080]\<rparr>
                    else result);
              result = (if hasContent w content ''github.com/gofiber/fiber''
                    then result\<lparr>Frameworks := Frameworks result
                           @ [mkFramework ''Fiber'' ''web'' 3000]\<rparr>
                    else result);
              result = (if hasContent w content ''gorm.io/gorm''
                    then result\<lparr>Frameworks := Frameworks result
                           @ [mkFramework ''GORM'' ''orm'' 0]\<rparr>
                    else result)
          in result))"

text \<open>
  \<open>pkg[key].(map[string]interface{})\<close>: the members of the object stored under \<open>key\<close>
  (the last one when the key is repeated, as \<open>json.Unmarshal\<close> keeps the last), or \<open>None\<close>
  when the key is missing or holds no object. \<open>mergeDeps\<close> is the loop
  \<open>for k, v := range d { deps[k] = v }\<close> on the map \<open>deps\<close>.
\<close>

definition objectAt :: "(string \<times> json) list \<Rightarrow> string \<Rightarrow> (string \<times> json) list option" where
  "objectAt pkg key = (case map_of (rev pkg) key of
                         Some (JObject members) \<Rightarrow> Some members
                       | _ \<Rightarrow> None)"

fun mergeDeps :: "(string \<times> json) list \<Rightarrow> (string \<rightharpoonup> json) \<Rightarrow> (string \<rightharpoonup> json)" where
  "mergeDeps [] deps = deps"
| "mergeDeps ((k, v) # d) deps = mergeDeps d (deps(k \<mapsto> v))"

text \<open>\<open>_, ok := deps[key]\<close>.\<close>

definition hasKey :: "(string \<rightharpoonup> json) \<Rightarrow> string \<Rightarrow> bool" where
  "hasKey deps key = (case deps key of None \<Rightarrow> False | Some v \<Rightarrow> True)"

definition detectJavaScriptFrameworks :: "World \<Rightarrow> Result \<Rightarrow> Result" where
  "detectJavaScriptFrameworks w result0 =
     (case readFile w ''package.json'' of
        Inl err \<Rightarrow> result0
      | Inr content \<Rightarrow>
         (case jsonUnmarshal w content of
            None \<Rightarrow> result0
          | Some pkg \<Rightarrow>
             (let deps = Map.empty;
                  deps = (case objectAt pkg ''dependencies'' of
                            Some d \<Rightarrow> mergeDeps d deps | None \<Rightarrow> deps);
                  deps = (case objectAt pkg ''devDependencies'' of
                            Some d \<Rightarrow> mergeDeps d deps | None \<Rightarrow> deps);
                  result = result0;
                  result = (if hasKey deps ''next''
                    then result\<lparr>Frameworks := Frameworks result
                           @ [mkFramework ''Next.js'' ''web'' 3000]\<rparr>
                    else result);
                  result = (if hasKey deps ''react''
                    then result\<lparr>Frameworks := Frameworks result
                           @ [mkFramework ''React'' ''frontend'' 3000]\<rparr>
                    else result);
                  result = (if hasKey deps ''vue''
                    then result\<lparr>Frameworks := Frameworks result
                           @ [mkFramework ''Vue'' ''frontend'' 5173]\<rparr>
                    else result);
                  result = (if hasKey deps ''express''
                    then result\<lparr>Frameworks := Frameworks result
                           @ [mkFramework ''Express'' ''web'' 3000]\<rparr>
                    else result);
                  result = (if hasKey deps ''fastify''
                    then result\<lparr>Frameworks := Frameworks result
                           @ [mkFramework ''Fastify'' ''web'' 3000]\<rparr>
                    else result);
                  result = (if hasKey deps ''@nestjs/core''
                    then result\<lparr>Frameworks := Frameworks result
                           @ [mkFramework ''NestJS'' ''web'' 3000]\<rparr>
                    else result)
              in result)))"

text \<open>
  \<open>detectPythonFrameworks\<close>: the state \<open>st\<close> is the pair of \<open>result\<close> and the local
  \<open>found\<close>, which the checks of pyproject.toml read.
\<close>

definition detectPythonFrameworks :: "World \<Rightarrow> Result \<Rightarrow> Result" where
  "detectPythonFrameworks w result0 =
     (let st = (result0, False);
          st = (case readFile w ''requirements.txt'' of
                  Inl err \<Rightarrow> st
                | Inr content \<Rightarrow>
                   (let st = (if hasContent w content ''django''
                             then ((fst st)\<lparr>Frameworks := Frameworks (fst st)
                                    @ [mkFramework ''Django'' ''web'' 8000]\<rparr>, True)
                             else st);
                       st = (if hasContent w content ''flask''
                             then ((fst st)\<lparr>Frameworks := Frameworks (fst st)
                                    @ [mkFramework ''Flask'' ''web'' 5000]\<rparr>, True)
                             else st);
                       st = (if hasContent w content ''fastapi''
                             then ((fst st)\<lparr>Frameworks := Frameworks (fst st)
                                    @ [mkFramework ''FastAPI'' ''web'' 8000]\<rparr>, True)
                             else st);
                       st = (if hasContent w content ''sqlalchemy''
                             then ((fst st)\<lparr>Frameworks := Frameworks (fst st)
                                    @ [mkFramework ''SQLAlchemy'' ''orm'' 0]\<rparr>, True)
                             else st)
                    in st));
          st = (case readFile w ''pyproject.toml'' of
                  Inl err \<Rightarrow> st
                | Inr content \<Rightarrow>
                   (let st = (if hasContent w content ''django'' \<and> \<not> snd st
                             then ((fst st)\<lparr>Frameworks := Frameworks (fst st)
                                    @ [mkFramework ''Django'' ''web'' 8000]\<rparr>, True)
                             else st);
                       st = (if hasContent w content ''flask'' \<and> \<not> snd st
                             then ((fst st)\<lparr>Frameworks := Frameworks (fst st)
                                    @ [mkFramework ''Flask'' ''web'' 5000]\<rparr>, True)
                             else st);
                       st = (if hasContent w content ''fastapi'' \<and> \<not> snd st
                             then ((fst st)\<lparr>Frameworks := Frameworks (fst st)
                                    @ [mkFramework ''FastAPI'' ''web'' 8000]\<rparr>, True)
                             else st)
                    in st))
      in fst st)"

definition detectRustFrameworks :: "World \<Rightarrow> Result \<Rightarrow> Result" where
  "detectRustFrameworks w result0 =
     (case readFile w ''Cargo.toml'' of
        Inl err \<Rightarrow> result0
      | Inr content \<Rightarrow>
         (let result = result0;
              result = (if hasContent w content ''actix-web''
                    then result\<lparr>Frameworks := Frameworks result
                           @ [mkFramework ''Actix'' ''web'' 8000]\<rparr>
                    else result);
              result = (if hasContent w content ''rocket''
                    then result\<lparr>Frameworks := Frameworks result
                           @ [mkFramework ''Rocket'' ''web'' 8000]\<rparr>
                    else result);
              result = (if hasContent w content ''axum''
                    then result\<lparr>Frameworks := Frameworks result
                           @ [mkFramework ''Axum'' ''web'' 8000]\<rparr>
                    else result)
          in result))"

text \<open>\<open>detectJavaFrameworks\<close>: a readable pom.xml returns before build.gradle is read.\<close>

definition detectJavaFrameworks :: "World \<Rightarrow> Result \<Rightarrow> Result" where
  "detectJavaFrameworks w result =
     (case readFile w ''pom.xml'' of
        Inr content \<Rightarrow>
          (if hasContent w content ''spring-boot''
           then result\<lparr>Frameworks := Frameworks result
                  @ [mkFramework ''Spring Boot'' ''web'' 8080]\<rparr>
           else result)
      | Inl err \<Rightarrow>
          (case readFile w ''build.gradle'' of
             Inr content \<Rightarrow>
               (if hasContent w content ''spring-boot''
                then result\<lparr>Frameworks := Frameworks result
                       @ [mkFramework ''Spring Boot'' ''web'' 8080]\<rparr>
                else result)
           | Inl err \<Rightarrow> result))"

definition detectRubyFrameworks :: "World \<Rightarrow> Result \<Rightarrow> Result" where
  "detectRubyFrameworks w result0 =
     (case readFile w ''Gemfile'' of
        Inl err \<Rightarrow> result0
      | Inr content \<Rightarrow>
         (let result = result0;
              result = (if hasContent w content ''rails''
                    then result\<lparr>Frameworks := Frameworks result
                           @ [mkFramework ''Rails'' ''web'' 3000]\<rparr>
                    else result);
              result = (if hasContent w content ''sinatra''
                    then result\<lparr>Frameworks := Frameworks result
                           @ [mkFramework ''Sinatra'' ''web'' 4567]\<rparr>
                    else result)
          in result))"

text \<open>\<open>detectFrameworks\<close>: the switch on \<open>result.Language\<close>, after the reset of the list.\<close>

definition detectFrameworks :: "World \<Rightarrow> Result \<Rightarrow> Result \<times> error option" where
  "detectFrameworks w result0 =
     (let result = result0\<lparr>Frameworks := []\<rparr>;
          lang = Language result;
          result =
            (if lang = ''go'' then detectGoFrameworks w result
             else if lang = ''javascript'' \<or> lang = ''typescript''
             then detectJavaScriptFrameworks w result
             else if lang = ''python'' then detectPythonFrameworks w result
             else if lang = ''rust'' then detectRustFrameworks w result
             else if lang = ''java'' then detectJavaFrameworks w result
             else if lang = ''ruby'' then detectRubyFrameworks w result
             else result)
      in (result, None))"

subsection \<open>Project structure analysis\<close>

definition testDirs :: "string list" where
  "testDirs = [''test'', ''tests'', ''spec'', ''specs'', ''__tests__'', ''.test'', ''.tests'']"

definition buildDirs :: "string list" where
  "buildDirs = [''build'', ''dist'', ''out'', ''bin'', ''target'', ''release'', ''debug'',
                ''.build'', ''__pycache__'', ''node_modules/.bin'']"

text \<open>
  The loops \<open>for _, dir := range dirs { if dirExists(...) { ...; return } }\<close> of
  \<open>findTestDirs\<close> and \<open>findBuildDirs\<close>: whether the loop reaches its \<open>return\<close>.
\<close>

fun anyDirExists :: "World \<Rightarrow> string list \<Rightarrow> bool" where
  "anyDirExists w [] = False"
| "anyDirExists w (d # ds) = (if dirExists w d then True else anyDirExists w ds)"

text \<open>The loop of \<open>findTestDirs\<close> over the entries of the root.\<close>

fun anyTestFile :: "DirEntry list \<Rightarrow> bool" where
  "anyTestFile [] = False"
| "anyTestFile (entry # entries) =
     (if entryIsDir entry then anyTestFile entries
      else if Contains (entryName entry) ''_test.'' \<or> HasSuffix (entryName entry) ''.test.js''
      then True
      else anyTestFile entries)"

definition findTestDirs :: "World \<Rightarrow> Result \<Rightarrow> Result" where
  "findTestDirs w result =
     (if anyDirExists w testDirs then result\<lparr>TestDirFound := True\<rparr>
      else (case readDir w of
              Inl err \<Rightarrow> result
            | Inr entries \<Rightarrow>
                (if anyTestFile entries then result\<lparr>TestDirFound := True\<rparr> else result)))"

definition findBuildDirs :: "World \<Rightarrow> Result \<Rightarrow> Result" where
  "findBuildDirs w result =
     (if anyDirExists w buildDirs then result\<lparr>BuildDirFound := True\<rparr> else result)"

text \<open>
  The loops \<open>for _, ep := range entryPoints { if fileExists(...) { ...; return } }\<close> of
  \<open>findMainEntrypoint\<close>: the first candidate that exists.
\<close>

fun firstExisting :: "World \<Rightarrow> string list \<Rightarrow> string option" where
  "firstExisting w [] = None"
| "firstExisting w (ep # eps) = (if fileExists w ep then Some ep else firstExisting w eps)"

definition findMainEntrypoint :: "World \<Rightarrow> Result \<Rightarrow> Result" where
  "findMainEntrypoint w result =
     (let lang = Language result in
      if lang = ''go''
      then (if fileExists w ''main.go'' then result\<lparr>MainEntrypoint := ''main.go''\<rparr> else result)
      else if lang = ''javascript'' \<or> lang = ''typescript''
      then (case firstExisting w [''index.js'', ''main.js'', ''app.js'', ''server.js'',
                                  ''index.ts'', ''main.ts''] of
              Some ep \<Rightarrow> result\<lparr>MainEntrypoint := ep\<rparr>
            | None \<Rightarrow>
                (case readFile w ''package.json'' of
                   Inr content \<Rightarrow>
                     (if Contains content ([CHR 0x22] @ ''main'' @ [CHR 0x22])
                      then result\<lparr>MainEntrypoint := ''package.json (main field)''\<rparr>
                      else result)
                 | Inl err \<Rightarrow> result))
      else if lang = ''python''
      then (case firstExisting w [''main.py'', ''app.py'', ''__main__.py'', ''run.py'',
                                  ''wsgi.py''] of
              Some ep \<Rightarrow> result\<lparr>MainEntrypoint := ep\<rparr>
            | None \<Rightarrow> result)
      else if lang = ''rust''
      then (if fileExists w ''src/main.rs''
            then result\<lparr>MainEntrypoint := ''src/main.rs''\<rparr> else result)
      else if lang = ''java''
      then (if fileExists w ''src/main/java''
            then result\<lparr>MainEntrypoint := ''src/main/java''\<rparr> else result)
      else if lang = ''ruby''
      then (case firstExisting w [''app.rb'', ''main.rb'', ''server.rb'', ''config.ru''] of
              Some ep \<Rightarrow> result\<lparr>MainEntrypoint := ep\<rparr>
            | None \<Rightarrow> result)
      else result)"

definition depFiles :: "string list" where
  "depFiles = [''go.mod'', ''go.sum'', ''package.json'', ''package-lock.json'', ''yarn.lock'',
               ''pnpm-lock.yaml'', ''requirements.txt'', ''setup.py'', ''pyproject.toml'',
               ''Pipfile'', ''Gemfile'', ''Gemfile.lock'', ''Cargo.toml'', ''Cargo.lock'',
               ''pom.xml'', ''build.gradle'', ''composer.json'', ''composer.lock'']"

definition configFiles :: "string list" where
  "configFiles = [''.env'', ''.env.local'', ''.env.example'', ''config.yaml'', ''config.yml'',
                  ''config.json'', ''.eslintrc'', ''.eslintrc.json'', ''.prettierrc'',
                  ''jest.config.js'', ''tsconfig.json'', ''.pylintrc'', ''setup.cfg'',
                  ''tox.ini'', ''.gitignore'', ''Dockerfile'', ''docker-compose.yml'',
                  ''docker-compose.yaml'', ''.github/workflows'', ''.gitlab-ci.yml'',
                  ''.travis.yml'', ''Jenkinsfile'']"

text \<open>The loop of \<open>findDependencyFiles\<close> over the rest of \<open>depFiles\<close>.\<close>

fun findDependencyFiles_loop :: "World \<Rightarrow> string list \<Rightarrow> Result \<Rightarrow> Result" where
  "findDependencyFiles_loop w [] result = result"
| "findDependencyFiles_loop w (depFile # rest) result =
     findDependencyFiles_loop w rest
       (if fileExists w depFile
        then result\<lparr>DependencyFiles := DependencyFiles result @ [depFile]\<rparr>
        else result)"

definition findDependencyFiles :: "World \<Rightarrow> Result \<Rightarrow> Result" where
  "findDependencyFiles w result = findDependencyFiles_loop w depFiles result"

text \<open>The loop of \<open>findConfigFiles\<close> over the rest of \<open>configFiles\<close>.\<close>

fun findConfigFiles_loop :: "World \<Rightarrow> string list \<Rightarrow> Result \<Rightarrow> Result" where
  "findConfigFiles_loop w [] result = result"
| "findConfigFiles_loop w (configFile # rest) result =
     findConfigFiles_loop w rest
       (if fileExists w configFile \<or> dirExists w configFile
        then result\<lparr>ConfigFiles := ConfigFiles result @ [configFile]\<rparr>
        else result)"

definition findConfigFiles :: "World \<Rightarrow> Result \<Rightarrow> Result" where
  "findConfigFiles w result = findConfigFiles_loop w configFiles result"

definition analyzeProjectStructure :: "World \<Rightarrow> Result \<Rightarrow> Result \<times> error option" where
  "analyzeProjectStructure w result0 =
     (let result = findTestDirs w result0;
          result = findBuildDirs w result;
          result = result\<lparr>HasVendor := dirExists w ''vendor''\<rparr>;
          result = findMainEntrypoint w result;
          result = findDependencyFiles w result;
          result = findConfigFiles w result
      in (result, None))"

subsection \<open>The entry point\<close>

text \<open>
  \<open>Analyze\<close>: the four passes in order. An error of a pass is only logged
  (\<open>a.logger.Warn\<close>) and the next pass runs on the same result; the function ends in
  \<open>return result, nil\<close>.
\<close>

definition Analyze :: "World \<Rightarrow> string \<Rightarrow> error + Result" where
  "Analyze w projectPath =
     (let result = newResult projectPath;
          (result, err) = detectLanguage w result;
          (result, err) = detectFrameworks w result;
          (result, err) = detectDocker w result;
          (result, err) = analyzeProjectStructure w result
      in Inr result)"

subsection \<open>The second copy of the detector\<close>

text \<open>
  The repository holds a second copy of package \<open>detector\<close>, split over two files
  (\<open>detectLanguage\<close> and \<open>fileExists\<close> in a file of their own, textually the same as
  above). It has no logging of what it detects and returns the error of \<open>os.ReadFile\<close>
  as it is; two of its functions differ from those above in what they compute, and are
  modelled here with the suffix \<open>_copy\<close>.
\<close>

text \<open>\<open>readFile\<close> of the second copy: \<open>return "", err\<close>.\<close>

definition readFile_copy :: "World \<Rightarrow> string \<Rightarrow> error + string" where
  "readFile_copy w p = (case readFileBytes w p of
                          None \<Rightarrow> Inl (PathError p)
                        | Some content \<Rightarrow> Inr content)"

text \<open>
  \<open>detectPythonFrameworks\<close> of the second copy: it has no \<open>found\<close> variable, and the
  three checks of pyproject.toml are not guarded.
\<close>

definition detectPythonFrameworks_copy :: "World \<Rightarrow> Result \<Rightarrow> Result" where
  "detectPythonFrameworks_copy w result0 =
     (let result = result0;
          result = (case readFile_copy w ''requirements.txt'' of
                      Inl err \<Rightarrow> result
                    | Inr content \<Rightarrow>
                       (let result = (if hasContent w content ''django''
                                      then result\<lparr>Frameworks := Frameworks result
                                             @ [mkFramework ''Django'' ''web'' 8000]\<rparr>
                                      else result);
                            result = (if hasContent w content ''flask''
                                      then result\<lparr>Frameworks := Frameworks result
                                             @ [mkFramework ''Flask'' ''web'' 5000]\<rparr>
                                      else result);
                            result = (if hasContent w content ''fastapi''
                                      then result\<lparr>Frameworks := Frameworks result
                                             @ [mkFramework ''FastAPI'' ''web'' 8000]\<rparr>
                                      else result);
                            result = (if hasContent w content ''sqlalchemy''
                                      then result\<lparr>Frameworks := Frameworks result
                                             @ [mkFramework ''SQLAlchemy'' ''orm'' 0]\<rparr>
                                      else result)
                        in result));
          result = (case readFile_copy w ''pyproject.toml'' of
                      Inl err \<Rightarrow> result
                    | Inr content \<Rightarrow>
                       (let result = (if hasContent w content ''django''
                                      then result\<lparr>Frameworks := Frameworks result
                                             @ [mkFramework ''Django'' ''web'' 8000]\<rparr>
                                      else result);
                            result = (if hasContent w content ''flask''
                                      then result\<lparr>Frameworks := Frameworks result
                                             @ [mkFramework ''Flask'' ''web'' 5000]\<rparr>
                                      else result);
                            result = (if hasContent w content ''fastapi''
                                      then result\<lparr>Frameworks := Frameworks result
                                             @ [mkFramework ''FastAPI'' ''web'' 8000]\<rparr>
                                      else result)
                        in result))
      in result)"

text \<open>
  The body of the loop of \<open>parseDockerCompose\<close> of the second copy: no line is skipped
  for being blank or a comment; the indentation is tested on the bytes \<open>line[0]\<close> and
  \<open>line[1]\<close> (under \<open>len(line) >= 2\<close>), the trailing colon after it, and the colon is cut
  off by \<open>serviceName[:len(serviceName)-1]\<close>.
\<close>

definition composeLine_copy :: "string \<Rightarrow> bool \<times> string list \<Rightarrow> bool \<times> string list" where
  "composeLine_copy line st =
     (let inServices = fst st; services = snd st; trimmed = TrimSpace line in
      if HasPrefix trimmed ''services:'' then (True, services)
      else if inServices then
        (if length line > 0 \<and> hd line \<noteq> CHR '' '' \<and> hd line \<noteq> CHR 0x09
         then (False, services)
         else if length line \<ge> 2 \<and> line ! 0 = CHR '' '' \<and> line ! 1 \<noteq> CHR '' ''
         then (let serviceName = TrimSpace line in
               if HasSuffix serviceName '':''
               then (let serviceName = take (length serviceName - 1) serviceName in
                     if serviceName \<noteq> [] \<and> \<not> Contains serviceName '' ''
                     then (inServices, services @ [serviceName])
                     else (inServices, services))
               else (inServices, services))
         else (inServices, services))
      else (inServices, services))"

fun composeLines_copy :: "string list \<Rightarrow> bool \<times> string list \<Rightarrow> bool \<times> string list" where
  "composeLines_copy [] st = st"
| "composeLines_copy (line # rest) st = composeLines_copy rest (composeLine_copy line st)"

definition extractServices_copy :: "string \<Rightarrow> string list \<Rightarrow> string list" where
  "extractServices_copy content services =
     removeDuplicates (snd (composeLines_copy (splitLines content) (False, services)))"

definition parseDockerCompose_copy :: "World \<Rightarrow> string \<Rightarrow> Result \<Rightarrow> Result" where
  "parseDockerCompose_copy w path result =
     (case readFile_copy w path of
        Inl err \<Rightarrow> result
      | Inr content \<Rightarrow>
          result\<lparr>DockerServices := extractServices_copy content (DockerServices result)\<rparr>)"

subsection \<open>The specification's reading of the classifiers\<close>

text \<open>
  The marker precedence of the language classifier as the specification words it: an
  ordered list of rules, each a list of alternative marker files and the language they
  stand for (the package manifest is refined by the strict-typing configuration file);
  the first rule with a marker present wins, and no match is \<open>unknown\<close>. The classifier
  is given the existence predicate only.
\<close>

definition spec_markerRules :: "(string list \<times> ((string \<Rightarrow> bool) \<Rightarrow> string)) list" where
  "spec_markerRules =
     [([''go.mod''], \<lambda>present. ''go''),
      ([''requirements.txt'', ''setup.py'', ''pyproject.toml''], \<lambda>present. ''python''),
      ([''package.json''],
         \<lambda>present. if present ''tsconfig.json'' then ''typescript'' else ''javascript''),
      ([''Cargo.toml''], \<lambda>present. ''rust''),
      ([''pom.xml''], \<lambda>present. ''java''),
      ([''build.gradle'', ''build.gradle.kts''], \<lambda>present. ''java''),
      ([''Gemfile''], \<lambda>present. ''ruby''),
      ([''composer.json''], \<lambda>present. ''php''),
      ([''CMakeLists.txt'', ''Makefile''], \<lambda>present. ''cpp'')]"

definition ruleMatches :: "(string \<Rightarrow> bool) \<Rightarrow> string list \<times> ((string \<Rightarrow> bool) \<Rightarrow> string) \<Rightarrow> bool" where
  "ruleMatches present rule = list_ex present (fst rule)"

fun spec_classify ::
  "(string \<Rightarrow> bool) \<Rightarrow> (string list \<times> ((string \<Rightarrow> bool) \<Rightarrow> string)) list \<Rightarrow> string" where
  "spec_classify present [] = ''unknown''"
| "spec_classify present (rule # rules) =
     (if ruleMatches present rule then snd rule present else spec_classify present rules)"

text \<open>
  Deduplication as the specification words it: each name once, in the order of first
  appearance.
\<close>

fun spec_firstOccurrences :: "string list \<Rightarrow> string list" where
  "spec_firstOccurrences [] = []"
| "spec_firstOccurrences (x # xs) = x # spec_firstOccurrences (filter (\<lambda>y. y \<noteq> x) xs)"

subsection \<open>Concrete project roots\<close>

text \<open>
  A stand-in for \<open>strings.ToLower\<close> on the ASCII letters, for the concrete roots below
  (whose files hold ASCII text only).
\<close>

definition asciiToLower :: "string \<Rightarrow> string" where
  "asciiToLower s =
     map (\<lambda>c. let n = (of_char c :: nat) in
               if 65 \<le> n \<and> n \<le> 90 then char_of (n + 32) else c) s"

text \<open>
  \<open>mkWorld nodes contents listing\<close>: a root in which \<open>os.Stat\<close> succeeds on the names of
  \<open>nodes\<close>, \<open>os.ReadFile\<close> on those of \<open>contents\<close>, and \<open>os.ReadDir\<close> on the root returns
  \<open>listing\<close>; no file of it parses as JSON.
\<close>

definition mkWorld ::
  "(string \<times> FileInfo) list \<Rightarrow> (string \<times> string) list \<Rightarrow> error + DirEntry list \<Rightarrow> World" where
  "mkWorld nodes contents listing =
     \<lparr>stat = map_of nodes, readFileBytes = map_of contents, readDir = listing,
      jsonUnmarshal = (\<lambda>content. None), toLower = asciiToLower\<rparr>"

text \<open>The compose file of the specification's example, two spaces per level.\<close>

definition specComposeFile :: string where
  "specComposeFile =
     ''services:'' @ [CHR 0x0A] @
     ''  web:'' @ [CHR 0x0A] @
     ''    image: app'' @ [CHR 0x0A] @
     ''  db:'' @ [CHR 0x0A] @
     ''    image: postgres'' @ [CHR 0x0A] @
     ''networks:'' @ [CHR 0x0A] @
     ''  default:''"

definition composeRoot :: World where
  "composeRoot =
     mkWorld [(''docker-compose.yml'', RegularFile)]
             [(''docker-compose.yml'', specComposeFile)]
             (Inr [\<lparr>entryName = ''docker-compose.yml'', entryIsDir = False\<rparr>])"

text \<open>A root that \<open>os.ReadDir\<close> cannot list, while \<open>os.Stat\<close> still sees its tests directory.\<close>

definition unlistableRoot :: World where
  "unlistableRoot =
     mkWorld [(''tests'', Directory)] []
             (Inl (PathError ''open /srv/app: permission denied''))"

text \<open>A root that does not exist: every probe fails.\<close>

definition missingRoot :: World where
  "missingRoot = mkWorld [] [] (Inl (PathError ''open /srv/gone: no such file or directory''))"

text \<open>A root with the markers of two ecosystems, and one where go.mod is a directory.\<close>

definition polyglotRoot :: World where
  "polyglotRoot =
     mkWorld [(''Makefile'', RegularFile), (''package.json'', RegularFile),
              (''setup.py'', RegularFile)] []
             (Inr [\<lparr>entryName = ''Makefile'', entryIsDir = False\<rparr>,
                   \<lparr>entryName = ''package.json'', entryIsDir = False\<rparr>,
                   \<lparr>entryName = ''setup.py'', entryIsDir = False\<rparr>])"

definition goModDirRoot :: World where
  "goModDirRoot =
     mkWorld [(''go.mod'', Directory), (''package.json'', RegularFile)] []
             (Inr [\<lparr>entryName = ''go.mod'', entryIsDir = True\<rparr>,
                   \<lparr>entryName = ''package.json'', entryIsDir = False\<rparr>])"

text \<open>
  Two roots with the same dependency and configuration files present, listed by the file
  system in different orders, and otherwise different.
\<close>

definition rootA :: World where
  "rootA =
     mkWorld [(''setup.py'', RegularFile), (''go.mod'', RegularFile), (''.env'', RegularFile),
              (''.github/workflows'', Directory), (''main.go'', RegularFile)] []
             (Inr [\<lparr>entryName = ''setup.py'', entryIsDir = False\<rparr>,
                   \<lparr>entryName = ''main.go'', entryIsDir = False\<rparr>,
                   \<lparr>entryName = ''go.mod'', entryIsDir = False\<rparr>,
                   \<lparr>entryName = ''.github'', entryIsDir = True\<rparr>,
                   \<lparr>entryName = ''.env'', entryIsDir = False\<rparr>])"

definition rootB :: World where
  "rootB =
     mkWorld [(''.github/workflows'', Directory), (''.env'', RegularFile),
              (''go.mod'', RegularFile), (''setup.py'', RegularFile)] []
             (Inr [\<lparr>entryName = ''.env'', entryIsDir = False\<rparr>,
                   \<lparr>entryName = ''.github'', entryIsDir = True\<rparr>,
                   \<lparr>entryName = ''go.mod'', entryIsDir = False\<rparr>,
                   \<lparr>entryName = ''setup.py'', entryIsDir = False\<rparr>])"

text \<open>
  A compose file, one space per level, with a comment at column 0 inside the services
  block.
\<close>

definition commentedComposeFile :: string where
  "commentedComposeFile =
     ''services:'' @ [CHR 0x0A] @
     '' web:'' @ [CHR 0x0A] @
     ''# volumes:'' @ [CHR 0x0A] @
     '' db:''"

definition commentedComposeRoot :: World where
  "commentedComposeRoot =
     mkWorld [(''docker-compose.yml'', RegularFile)]
             [(''docker-compose.yml'', commentedComposeFile)]
             (Inr [\<lparr>entryName = ''docker-compose.yml'', entryIsDir = False\<rparr>])"

text \<open>A Python root that names django in both of its manifests.\<close>

definition djangoRoot :: World where
  "djangoRoot =
     mkWorld [(''requirements.txt'', RegularFile), (''pyproject.toml'', RegularFile)]
             [(''requirements.txt'', ''Django==4.2'' @ [CHR 0x0A] @ ''SQLAlchemy>=2.0''),
              (''pyproject.toml'', ''dependencies = [django, flask]'')]
             (Inr [\<lparr>entryName = ''pyproject.toml'', entryIsDir = False\<rparr>,
                   \<lparr>entryName = ''requirements.txt'', entryIsDir = False\<rparr>])"

section \<open>Properties\<close>

subsection \<open>The compose parser\<close>

lemmas string_eval =
  TrimSpace_def trimLeft.simps trimLeftRev.simps asciiSpace_def HasPrefix_def HasSuffix_def
  TrimSuffix_def

text \<open>
  A line that starts with two spaces, so any line indented two or more levels, is never
  recorded as a service, in whatever state the parser is.
\<close>

lemma composeLine_indented_not_recorded:
  "HasPrefix line ''  '' \<Longrightarrow> snd (composeLine line (inServices, services)) = services"
  by (cases line; cases "tl line") (auto simp: composeLine_def Let_def HasPrefix_def)

text \<open>
  C2. On the compose file of the specification's example (\<open>services:\<close>, \<open>  web:\<close>,
  \<open>    image: app\<close>, \<open>  db:\<close>, \<open>    image: postgres\<close>, \<open>networks:\<close>, \<open>  default:\<close>) the
  service-name extraction is claimed to return \<open>["web", "db"]\<close>. The code returns no
  service: the test \<open>line[0:1] == " " && line[1:2] != " "\<close> accepts a line with exactly
  one leading space, while the comment above it says that service names have exactly two
  spaces of indentation; the lines \<open>  web:\<close> and \<open>  db:\<close> fail it.
\<close>

theorem parseDockerCompose_spec_example:
  "DockerServices (parseDockerCompose composeRoot ''docker-compose.yml'' (newResult ''/srv/app''))
     = []
   \<and> extractServices specComposeFile [] = []"
  by (simp add: parseDockerCompose_def composeRoot_def mkWorld_def readFile_def
        specComposeFile_def extractServices_def removeDuplicates_def composeLine_def
        newResult_def string_eval)

lemma HasPrefix_services_nonblank:
  "HasPrefix t ''services:'' \<Longrightarrow> t \<noteq> [] \<and> \<not> HasPrefix t ''#''"
  by (cases t) (auto simp: HasPrefix_def)

text \<open>
  C3, as amended. The parser enters the in-services state upon a line whose trimmed
  content starts with \<open>services:\<close>, whatever follows it and however the line is indented
  (such a line is neither blank nor a comment), and upon no other line: from outside the
  services block, the state after a line is in-services exactly when the trimmed line has
  that prefix; and a line with that prefix sets the state from any state, recording
  nothing.
\<close>

theorem composeLine_enters_services:
  "fst (composeLine line (False, services)) = HasPrefix (TrimSpace line) ''services:''
   \<and> (HasPrefix (TrimSpace line) ''services:'' \<longrightarrow>
        composeLine line (inServices, services) = (True, services))"
  using HasPrefix_services_nonblank [of "TrimSpace line"]
  by (auto simp: composeLine_def Let_def)

theorem composeLine_enters_services_witness:
  "HasPrefix (TrimSpace ''  services: x'') ''services:''
   \<and> composeLine ''  services: x'' (False, []) = (True, [])"
  using composeLine_enters_services [of "''  services: x''" "[]" False]
  by (simp add: string_eval)

text \<open>
  C3, as stated, fails: the line \<open>services: x\<close>, whose trimmed content is not exactly
  \<open>services:\<close>, causes entry.
\<close>

theorem composeLine_exact_services_counterexample:
  "TrimSpace ''services: x'' \<noteq> ''services:''
   \<and> composeLine ''services: x'' (False, []) = (True, [])"
  by (simp add: composeLine_def string_eval)

text \<open>
  In internal/detector/analyzer.go a blank line, and a line whose trimmed content starts
  with \<open>#\<close>, leaves the parser's state as it is: no service name is recorded and the
  in-services state does not change; in particular a comment without indentation inside
  the services block does not end the block.
\<close>

theorem composeLine_skips_blank_and_comment:
  "TrimSpace line = [] \<or> HasPrefix (TrimSpace line) ''#'' \<Longrightarrow> composeLine line st = st"
  by (auto simp: composeLine_def Let_def)

theorem composeLine_skips_blank_and_comment_witness:
  "HasPrefix (TrimSpace ''# volumes:'') ''#''
   \<and> composeLine ''# volumes:'' (True, [''web'']) = (True, [''web''])"
  using composeLine_skips_blank_and_comment [of "''# volumes:''" "(True, [''web''])"]
  by (simp add: string_eval)

text \<open>
  The second copy of the parser agrees with the first on entering the services block, on
  lines indented two or more levels, on the specification's example, and on leaving the
  state as it is on an empty line.
\<close>

lemma composeLine_copy_enters_services:
  "fst (composeLine_copy line (False, services)) = HasPrefix (TrimSpace line) ''services:''
   \<and> (HasPrefix (TrimSpace line) ''services:'' \<longrightarrow>
        composeLine_copy line (inServices, services) = (True, services))"
  by (simp add: composeLine_copy_def Let_def)

lemma composeLine_copy_empty_line: "composeLine_copy [] st = st"
  by (cases st) (simp add: composeLine_copy_def Let_def string_eval)

lemma composeLine_copy_indented_not_recorded:
  "HasPrefix line ''  '' \<Longrightarrow> snd (composeLine_copy line (inServices, services)) = services"
  by (cases line; cases "tl line") (auto simp: composeLine_copy_def Let_def HasPrefix_def)

lemma extractServices_copy_spec_example: "extractServices_copy specComposeFile [] = []"
  by code_simp

text \<open>
  C6. A line whose trimmed content starts with \<open>#\<close> is claimed never to be recorded as
  a service name and never to change the in-services state. The second copy of the parser
  has no such skip: a comment at column 0 inside the services block ends the block (the
  service \<open>db\<close> after it is lost, where the first copy records it), and a comment
  indented by one space that ends in a colon is recorded as a service.
\<close>

theorem parseDockerCompose_copy_comment_ends_block:
  "composeLine_copy ''# volumes:'' (True, [''web'']) = (False, [''web''])
   \<and> composeLine_copy '' #db:'' (True, []) = (True, [''#db''])
   \<and> DockerServices (parseDockerCompose_copy commentedComposeRoot ''docker-compose.yml''
                        (newResult ''/srv/app'')) = [''web'']
   \<and> DockerServices (parseDockerCompose commentedComposeRoot ''docker-compose.yml''
                        (newResult ''/srv/app'')) = [''web'', ''db'']"
  by code_simp

subsection \<open>Deduplication of the service names\<close>

lemma set_spec_firstOccurrences: "set (spec_firstOccurrences xs) = set xs"
  by (induction xs rule: spec_firstOccurrences.induct) auto

lemma distinct_spec_firstOccurrences: "distinct (spec_firstOccurrences xs)"
  by (induction xs rule: spec_firstOccurrences.induct) (auto simp: set_spec_firstOccurrences)

lemma removeDuplicates_loop_eq:
  "removeDuplicates_loop xs seen result =
     result @ spec_firstOccurrences (filter (\<lambda>x. \<not> seen x) xs)"
proof (induction xs arbitrary: seen result)
  case Nil
  show ?case by simp
next
  case (Cons item rest)
  show ?case
  proof (cases "seen item")
    case True
    then show ?thesis using Cons.IH [of seen result] by simp
  next
    case False
    have flt: "filter (\<lambda>x. \<not> (seen(item := True)) x) rest
                 = filter (\<lambda>y. y \<noteq> item) (filter (\<lambda>x. \<not> seen x) rest)"
      by (induction rest) auto
    have "removeDuplicates_loop (item # rest) seen result
            = removeDuplicates_loop rest (seen(item := True)) (result @ [item])"
      using False by simp
    also have "\<dots> = (result @ [item])
                 @ spec_firstOccurrences (filter (\<lambda>x. \<not> (seen(item := True)) x) rest)"
      by (rule Cons.IH)
    also have "\<dots> = result @ spec_firstOccurrences (filter (\<lambda>x. \<not> seen x) (item # rest))"
      using False by (simp only: flt) simp
    finally show ?thesis .
  qed
qed

lemma removeDuplicates_eq: "removeDuplicates xs = spec_firstOccurrences xs"
  by (simp add: removeDuplicates_def removeDuplicates_loop_eq)

text \<open>
  A compose file, one space per level, that lists \<open>web\<close> twice: it is recorded once, at
  its first place.
\<close>

lemma extractServices_same_name_twice:
  "extractServices (''services:'' @ [CHR 0x0A] @ '' web:'' @ [CHR 0x0A] @ '' db:''
                    @ [CHR 0x0A] @ '' web:'') [] = [''web'', ''db'']"
  by code_simp


text \<open>The deduplication holds of the second copy as well: it calls the same function.\<close>

lemma extractServices_copy_deduplicated:
  "distinct (extractServices_copy content services)
   \<and> extractServices_copy content services
       = spec_firstOccurrences (snd (composeLines_copy (splitLines content) (False, services)))"
  by (simp add: extractServices_copy_def removeDuplicates_eq distinct_spec_firstOccurrences)

subsection \<open>The language classifier\<close>

lemma spec_classify_first_match:
  "i < length rules \<Longrightarrow> ruleMatches present (rules ! i) \<Longrightarrow>
   (\<forall>k<i. \<not> ruleMatches present (rules ! k)) \<Longrightarrow>
   spec_classify present rules = snd (rules ! i) present"
proof (induction rules arbitrary: i)
  case Nil
  then show ?case by simp
next
  case (Cons rule rules)
  show ?case
  proof (cases i)
    case 0
    with Cons.prems show ?thesis by simp
  next
    case (Suc n)
    with Cons.prems have "\<not> ruleMatches present rule" by auto
    moreover have "spec_classify present rules = snd (rules ! n) present"
    proof (rule Cons.IH)
      show "n < length rules" using Cons.prems Suc by simp
      show "ruleMatches present (rules ! n)" using Cons.prems Suc by simp
      show "\<forall>k<n. \<not> ruleMatches present (rules ! k)"
      proof (intro allI impI)
        fix k assume "k < n"
        then have "Suc k < i" using Suc by simp
        with Cons.prems(3) have "\<not> ruleMatches present ((rule # rules) ! Suc k)" by blast
        then show "\<not> ruleMatches present (rules ! k)" by simp
      qed
    qed
    ultimately show ?thesis using Suc by simp
  qed
qed

lemma detectLanguage_classify:
  "Language (fst (detectLanguage w result)) = spec_classify (fileExists w) spec_markerRules"
  by (simp add: detectLanguage_def spec_markerRules_def ruleMatches_def)

lemma detectLanguage_readDir:
  "detectLanguage (w\<lparr>readDir := listing\<rparr>) result = detectLanguage w result"
  by (simp add: detectLanguage_def fileExists_def)

text \<open>
  C1. For every root, \<open>detectLanguage\<close> returns (with a nil error) the language of the
  first rule, in the fixed order go.mod; requirements.txt, setup.py or pyproject.toml;
  package.json (typescript with tsconfig.json, else javascript); Cargo.toml; pom.xml;
  build.gradle or build.gradle.kts; Gemfile; composer.json; CMakeLists.txt or Makefile,
  that has a marker present, and \<open>unknown\<close> when none has. It does not depend on the
  listing of the root, so not on the order in which the file system enumerates it. In
  particular, when the markers of two rules \<open>i < j\<close> are present and those of no rule
  before \<open>i\<close>, the language is that of rule \<open>i\<close>.
\<close>

theorem detectLanguage_precedence:
  "Language (fst (detectLanguage w result)) = spec_classify (fileExists w) spec_markerRules
   \<and> snd (detectLanguage w result) = None
   \<and> detectLanguage (w\<lparr>readDir := listing\<rparr>) result = detectLanguage w result
   \<and> (i < j \<and> j < length spec_markerRules
        \<and> ruleMatches (fileExists w) (spec_markerRules ! i)
        \<and> ruleMatches (fileExists w) (spec_markerRules ! j)
        \<and> (\<forall>k<i. \<not> ruleMatches (fileExists w) (spec_markerRules ! k))
      \<longrightarrow> Language (fst (detectLanguage w result)) = snd (spec_markerRules ! i) (fileExists w))"
proof (intro conjI impI)
  show "Language (fst (detectLanguage w result)) = spec_classify (fileExists w) spec_markerRules"
    by (rule detectLanguage_classify)
  show "snd (detectLanguage w result) = None"
    by (simp add: detectLanguage_def)
  show "detectLanguage (w\<lparr>readDir := listing\<rparr>) result = detectLanguage w result"
    by (rule detectLanguage_readDir)
next
  assume h: "i < j \<and> j < length spec_markerRules
        \<and> ruleMatches (fileExists w) (spec_markerRules ! i)
        \<and> ruleMatches (fileExists w) (spec_markerRules ! j)
        \<and> (\<forall>k<i. \<not> ruleMatches (fileExists w) (spec_markerRules ! k))"
  then have "spec_classify (fileExists w) spec_markerRules
               = snd (spec_markerRules ! i) (fileExists w)"
    by (intro spec_classify_first_match) auto
  then show "Language (fst (detectLanguage w result)) = snd (spec_markerRules ! i) (fileExists w)"
    by (simp add: detectLanguage_classify)
qed

theorem detectLanguage_precedence_witness:
  "ruleMatches (fileExists polyglotRoot) (spec_markerRules ! 1)
   \<and> ruleMatches (fileExists polyglotRoot) (spec_markerRules ! 2)
   \<and> ruleMatches (fileExists polyglotRoot) (spec_markerRules ! 8)
   \<and> \<not> ruleMatches (fileExists polyglotRoot) (spec_markerRules ! 0)
   \<and> Language (fst (detectLanguage polyglotRoot (newResult ''/srv/app''))) = ''python''"
  using detectLanguage_precedence
          [of polyglotRoot "newResult ''/srv/app''" "readDir polyglotRoot" 1 2]
  by (simp add: spec_markerRules_def ruleMatches_def fileExists_def polyglotRoot_def mkWorld_def)

text \<open>
  C10. The existence probe \<open>fileExists\<close> succeeds on every path on which \<open>os.Stat\<close>
  succeeds, whatever the kind of the node; so a root in which go.mod is present, as a
  directory just as well as a regular file, is classified as go, with the same outcome as
  if go.mod were a regular file.
\<close>

theorem fileExists_any_kind:
  "stat w p = Some info \<Longrightarrow>
   fileExists w p
   \<and> (p = ''go.mod'' \<longrightarrow>
        Language (fst (detectLanguage w result)) = ''go''
        \<and> detectLanguage w result
            = detectLanguage (w\<lparr>stat := (stat w)(''go.mod'' \<mapsto> RegularFile)\<rparr>) result)"
  by (auto simp: detectLanguage_def fileExists_def)

theorem fileExists_any_kind_witness:
  "stat goModDirRoot ''go.mod'' = Some Directory
   \<and> dirExists goModDirRoot ''go.mod''
   \<and> fileExists goModDirRoot ''go.mod''
   \<and> Language (fst (detectLanguage goModDirRoot (newResult ''/srv/app''))) = ''go''"
proof -
  have s: "stat goModDirRoot ''go.mod'' = Some Directory"
    by (simp add: goModDirRoot_def mkWorld_def)
  have "fileExists goModDirRoot ''go.mod''
        \<and> Language (fst (detectLanguage goModDirRoot (newResult ''/srv/app''))) = ''go''"
    using fileExists_any_kind [OF s, of "newResult ''/srv/app''"] by blast
  with s show ?thesis by (simp add: dirExists_def)
qed

subsection \<open>The framework classifier\<close>

lemma Name_mkFramework [simp]: "Name (mkFramework n t p) = n"
  by (simp add: mkFramework_def)

lemma detectGoFrameworks_names:
  "Frameworks result = [] \<Longrightarrow> distinct (map Name (Frameworks (detectGoFrameworks w result)))"
  by (simp add: detectGoFrameworks_def Let_def split: sum.splits)

lemma detectJavaScriptFrameworks_names:
  "Frameworks result = [] \<Longrightarrow>
   distinct (map Name (Frameworks (detectJavaScriptFrameworks w result)))"
  by (simp add: detectJavaScriptFrameworks_def Let_def split: sum.splits option.splits)

lemma detectPythonFrameworks_names:
  "Frameworks result = [] \<Longrightarrow> distinct (map Name (Frameworks (detectPythonFrameworks w result)))"
  by (simp add: detectPythonFrameworks_def Let_def split: sum.splits)

lemma detectRustFrameworks_names:
  "Frameworks result = [] \<Longrightarrow> distinct (map Name (Frameworks (detectRustFrameworks w result)))"
  by (simp add: detectRustFrameworks_def Let_def split: sum.splits)

lemma detectJavaFrameworks_names:
  "Frameworks result = [] \<Longrightarrow> distinct (map Name (Frameworks (detectJavaFrameworks w result)))"
  by (simp add: detectJavaFrameworks_def Let_def split: sum.splits)

lemma detectRubyFrameworks_names:
  "Frameworks result = [] \<Longrightarrow> distinct (map Name (Frameworks (detectRubyFrameworks w result)))"
  by (simp add: detectRubyFrameworks_def Let_def split: sum.splits)

text \<open>
  A root with django in requirements.txt and in pyproject.toml: the checks of
  pyproject.toml are guarded by \<open>!found\<close>, and Django is recorded once.
\<close>

lemma detectFrameworks_django_twice:
  "map Name (Frameworks (fst (detectFrameworks djangoRoot
       (fst (detectLanguage djangoRoot (newResult ''/srv/app''))))))
     = [''Django'', ''SQLAlchemy'']"
  by code_simp

text \<open>
  In internal/detector/analyzer.go, for every root and every detected language (whatever
  the result held before), the framework classifier leaves no two Framework records with
  the same name in \<open>result.Frameworks\<close>.
\<close>

theorem detectFrameworks_distinct_names:
  "distinct (map Name (Frameworks (fst (detectFrameworks w result))))"
  by (simp add: detectFrameworks_def Let_def detectGoFrameworks_names
        detectJavaScriptFrameworks_names detectPythonFrameworks_names
        detectRustFrameworks_names detectJavaFrameworks_names detectRubyFrameworks_names)

text \<open>
  C5. The framework classifier is claimed never to record two frameworks of the same name
  in one run. \<open>detectPythonFrameworks\<close> of the second copy does: on a Python root that
  names django in requirements.txt and in pyproject.toml (entered, as \<open>detectFrameworks\<close>
  enters it, with an empty list) it records Django twice.
\<close>

theorem detectPythonFrameworks_copy_django_twice:
  "map Name (Frameworks (detectPythonFrameworks_copy djangoRoot
                           ((newResult ''/srv/app'')\<lparr>Language := ''python''\<rparr>)))
     = [''Django'', ''SQLAlchemy'', ''Django'', ''Flask'']"
  by code_simp

subsection \<open>The passes of Analyze\<close>

lemma Analyze_passes:
  "Analyze w p =
     Inr (fst (analyzeProjectStructure w (fst (detectDocker w (fst (detectFrameworks w
            (fst (detectLanguage w (newResult p)))))))))"
  by (simp add: Analyze_def Let_def split: prod.splits)

lemma dirExists_fileExists: "dirExists w p \<Longrightarrow> fileExists w p"
  by (simp add: dirExists_def fileExists_def split: option.splits)

lemma findDependencyFiles_loop_eq:
  "findDependencyFiles_loop w fs result =
     result\<lparr>DependencyFiles := DependencyFiles result @ filter (fileExists w) fs\<rparr>"
  by (induction fs arbitrary: result) simp_all

lemma findConfigFiles_loop_eq:
  "findConfigFiles_loop w fs result =
     result\<lparr>ConfigFiles := ConfigFiles result @ filter (fileExists w) fs\<rparr>"
  by (induction fs arbitrary: result) (auto dest: dirExists_fileExists)

lemma detectLanguage_frame:
  "DependencyFiles (fst (detectLanguage w r)) = DependencyFiles r
   \<and> ConfigFiles (fst (detectLanguage w r)) = ConfigFiles r
   \<and> TestDirFound (fst (detectLanguage w r)) = TestDirFound r
   \<and> ProjectRoot (fst (detectLanguage w r)) = ProjectRoot r"
  by (simp add: detectLanguage_def)

lemma detectGoFrameworks_frame:
  "DependencyFiles (detectGoFrameworks w r) = DependencyFiles r
   \<and> ConfigFiles (detectGoFrameworks w r) = ConfigFiles r
   \<and> TestDirFound (detectGoFrameworks w r) = TestDirFound r
   \<and> ProjectRoot (detectGoFrameworks w r) = ProjectRoot r"
  by (simp add: detectGoFrameworks_def Let_def split: sum.splits)

lemma detectJavaScriptFrameworks_frame:
  "DependencyFiles (detectJavaScriptFrameworks w r) = DependencyFiles r
   \<and> ConfigFiles (detectJavaScriptFrameworks w r) = ConfigFiles r
   \<and> TestDirFound (detectJavaScriptFrameworks w r) = TestDirFound r
   \<and> ProjectRoot (detectJavaScriptFrameworks w r) = ProjectRoot r"
  by (simp add: detectJavaScriptFrameworks_def Let_def split: sum.splits option.splits)

lemma detectPythonFrameworks_frame:
  "DependencyFiles (detectPythonFrameworks w r) = DependencyFiles r
   \<and> ConfigFiles (detectPythonFrameworks w r) = ConfigFiles r
   \<and> TestDirFound (detectPythonFrameworks w r) = TestDirFound r
   \<and> ProjectRoot (detectPythonFrameworks w r) = ProjectRoot r"
  by (simp add: detectPythonFrameworks_def Let_def split: sum.splits)

lemma detectRustFrameworks_frame:
  "DependencyFiles (detectRustFrameworks w r) = DependencyFiles r
   \<and> ConfigFiles (detectRustFrameworks w r) = ConfigFiles r
   \<and> TestDirFound (detectRustFrameworks w r) = TestDirFound r
   \<and> ProjectRoot (detectRustFrameworks w r) = ProjectRoot r"
  by (simp add: detectRustFrameworks_def Let_def split: sum.splits)

lemma detectJavaFrameworks_frame:
  "DependencyFiles (detectJavaFrameworks w r) = DependencyFiles r
   \<and> ConfigFiles (detectJavaFrameworks w r) = ConfigFiles r
   \<and> TestDirFound (detectJavaFrameworks w r) = TestDirFound r
   \<and> ProjectRoot (detectJavaFrameworks w r) = ProjectRoot r"
  by (simp add: detectJavaFrameworks_def Let_def split: sum.splits)

lemma detectRubyFrameworks_frame:
  "DependencyFiles (detectRubyFrameworks w r) = DependencyFiles r
   \<and> ConfigFiles (detectRubyFrameworks w r) = ConfigFiles r
   \<and> TestDirFound (detectRubyFrameworks w r) = TestDirFound r
   \<and> ProjectRoot (detectRubyFrameworks w r) = ProjectRoot r"
  by (simp add: detectRubyFrameworks_def Let_def split: sum.splits)

lemma detectFrameworks_frame:
  "DependencyFiles (fst (detectFrameworks w r)) = DependencyFiles r
   \<and> ConfigFiles (fst (detectFrameworks w r)) = ConfigFiles r
   \<and> TestDirFound (fst (detectFrameworks w r)) = TestDirFound r
   \<and> ProjectRoot (fst (detectFrameworks w r)) = ProjectRoot r"
  by (simp add: detectFrameworks_def Let_def detectGoFrameworks_frame
        detectJavaScriptFrameworks_frame detectPythonFrameworks_frame
        detectRustFrameworks_frame detectJavaFrameworks_frame detectRubyFrameworks_frame)

lemma detectDocker_frame:
  "DependencyFiles (fst (detectDocker w r)) = DependencyFiles r
   \<and> ConfigFiles (fst (detectDocker w r)) = ConfigFiles r
   \<and> TestDirFound (fst (detectDocker w r)) = TestDirFound r
   \<and> ProjectRoot (fst (detectDocker w r)) = ProjectRoot r"
  by (simp add: detectDocker_def parseDockerCompose_def Let_def split: sum.splits)

lemma findTestDirs_unlistable:
  "readDir w = Inl e \<Longrightarrow>
   TestDirFound (findTestDirs w r) = (anyDirExists w testDirs \<or> TestDirFound r)"
  by (simp add: findTestDirs_def)

lemma findMainEntrypoint_frame:
  "DependencyFiles (findMainEntrypoint w r) = DependencyFiles r
   \<and> ConfigFiles (findMainEntrypoint w r) = ConfigFiles r
   \<and> TestDirFound (findMainEntrypoint w r) = TestDirFound r
   \<and> ProjectRoot (findMainEntrypoint w r) = ProjectRoot r"
  by (simp add: findMainEntrypoint_def Let_def split: sum.splits option.splits)

lemma findTestDirs_frame:
  "DependencyFiles (findTestDirs w r) = DependencyFiles r
   \<and> ConfigFiles (findTestDirs w r) = ConfigFiles r
   \<and> ProjectRoot (findTestDirs w r) = ProjectRoot r"
  by (simp add: findTestDirs_def split: sum.splits)

lemma analyzeProjectStructure_files:
  "DependencyFiles (fst (analyzeProjectStructure w r))
     = DependencyFiles r @ filter (fileExists w) depFiles
   \<and> ConfigFiles (fst (analyzeProjectStructure w r))
     = ConfigFiles r @ filter (fileExists w) configFiles
   \<and> ProjectRoot (fst (analyzeProjectStructure w r)) = ProjectRoot r
   \<and> TestDirFound (fst (analyzeProjectStructure w r)) = TestDirFound (findTestDirs w r)"
  by (simp add: analyzeProjectStructure_def Let_def findDependencyFiles_def
        findConfigFiles_def findDependencyFiles_loop_eq findConfigFiles_loop_eq
        findMainEntrypoint_frame findBuildDirs_def findTestDirs_frame)


lemma Analyze_files:
  assumes "Analyze w p = Inr res"
  shows "DependencyFiles res = filter (fileExists w) depFiles"
    and "ConfigFiles res = filter (fileExists w) configFiles"
    and "ProjectRoot res = p"
  using assms
  by (auto simp: Analyze_passes analyzeProjectStructure_files detectDocker_frame
        detectFrameworks_frame detectLanguage_frame newResult_def)

lemma filter_cong_on: "(\<forall>f \<in> set fs. P f = Q f) \<Longrightarrow> filter P fs = filter Q fs"
  by (induction fs) auto

text \<open>
  C8. \<open>findDependencyFiles\<close> and \<open>findConfigFiles\<close> append exactly the members of their
  static candidate lists that exist, in the order of the list; the result of \<open>Analyze\<close>
  holds exactly these, so two roots with the same candidates present yield the same two
  sequences, whatever else differs between them (the order of their listings included).
\<close>

theorem dependency_and_config_files_static_order:
  "DependencyFiles (findDependencyFiles w result)
     = DependencyFiles result @ filter (fileExists w) depFiles
   \<and> ConfigFiles (findConfigFiles w result)
     = ConfigFiles result @ filter (fileExists w) configFiles
   \<and> (Analyze w p = Inr res \<longrightarrow>
        DependencyFiles res = filter (fileExists w) depFiles
        \<and> ConfigFiles res = filter (fileExists w) configFiles)
   \<and> (Analyze w p = Inr res \<and> Analyze w' p' = Inr res'
        \<and> (\<forall>f \<in> set (depFiles @ configFiles). fileExists w f = fileExists w' f)
      \<longrightarrow> DependencyFiles res = DependencyFiles res' \<and> ConfigFiles res = ConfigFiles res')"
proof (intro conjI impI)
  show "DependencyFiles (findDependencyFiles w result)
          = DependencyFiles result @ filter (fileExists w) depFiles"
    by (simp add: findDependencyFiles_def findDependencyFiles_loop_eq)
  show "ConfigFiles (findConfigFiles w result)
          = ConfigFiles result @ filter (fileExists w) configFiles"
    by (simp add: findConfigFiles_def findConfigFiles_loop_eq)
next
  assume "Analyze w p = Inr res"
  then show "DependencyFiles res = filter (fileExists w) depFiles"
    and "ConfigFiles res = filter (fileExists w) configFiles"
    by (rule Analyze_files)+
next
  assume h: "Analyze w p = Inr res \<and> Analyze w' p' = Inr res'
        \<and> (\<forall>f \<in> set (depFiles @ configFiles). fileExists w f = fileExists w' f)"
  then have d: "filter (fileExists w) depFiles = filter (fileExists w') depFiles"
    and c: "filter (fileExists w) configFiles = filter (fileExists w') configFiles"
    by (auto intro!: filter_cong_on)
  from h have "DependencyFiles res = filter (fileExists w) depFiles"
    and "DependencyFiles res' = filter (fileExists w') depFiles"
    and "ConfigFiles res = filter (fileExists w) configFiles"
    and "ConfigFiles res' = filter (fileExists w') configFiles"
    by (auto dest: Analyze_files)
  with d c show "DependencyFiles res = DependencyFiles res'"
    and "ConfigFiles res = ConfigFiles res'" by simp_all
qed

theorem dependency_and_config_files_static_order_witness:
  "Analyze rootA ''/srv/a'' =
     Inr \<lparr>Language = ''go'', Frameworks = [], DockerDetected = False,
          DockerServices = [], TestDirFound = False, BuildDirFound = False,
          HasVendor = False, HasModules = True,
          DependencyFiles = [''go.mod'', ''setup.py''],
          ConfigFiles = [''.env'', ''.github/workflows''],
          MainEntrypoint = ''main.go'', ProjectRoot = ''/srv/a''\<rparr>
   \<and> Analyze rootB ''/srv/b'' =
     Inr \<lparr>Language = ''go'', Frameworks = [], DockerDetected = False,
          DockerServices = [], TestDirFound = False, BuildDirFound = False,
          HasVendor = False, HasModules = True,
          DependencyFiles = [''go.mod'', ''setup.py''],
          ConfigFiles = [''.env'', ''.github/workflows''],
          MainEntrypoint = [], ProjectRoot = ''/srv/b''\<rparr>
   \<and> map (fileExists rootA) (depFiles @ configFiles)
       = map (fileExists rootB) (depFiles @ configFiles)
   \<and> readDir rootA \<noteq> readDir rootB
   \<and> DependencyFiles (projr (Analyze rootA ''/srv/a''))
       = DependencyFiles (projr (Analyze rootB ''/srv/b''))
   \<and> ConfigFiles (projr (Analyze rootA ''/srv/a''))
       = ConfigFiles (projr (Analyze rootB ''/srv/b''))"
proof -
  define resA where "resA =
     \<lparr>Language = ''go'', Frameworks = [], DockerDetected = False,
          DockerServices = [], TestDirFound = False, BuildDirFound = False,
          HasVendor = False, HasModules = True,
          DependencyFiles = [''go.mod'', ''setup.py''],
          ConfigFiles = [''.env'', ''.github/workflows''],
          MainEntrypoint = ''main.go'', ProjectRoot = ''/srv/a''\<rparr>"
  have a: "Analyze rootA ''/srv/a'' = Inr resA" unfolding resA_def by code_simp
  define resB where "resB =
     \<lparr>Language = ''go'', Frameworks = [], DockerDetected = False,
          DockerServices = [], TestDirFound = False, BuildDirFound = False,
          HasVendor = False, HasModules = True,
          DependencyFiles = [''go.mod'', ''setup.py''],
          ConfigFiles = [''.env'', ''.github/workflows''],
          MainEntrypoint = [], ProjectRoot = ''/srv/b''\<rparr>"
  have b: "Analyze rootB ''/srv/b'' = Inr resB" unfolding resB_def by code_simp
  have present: "map (fileExists rootA) (depFiles @ configFiles)
                   = map (fileExists rootB) (depFiles @ configFiles)"
    by code_simp
  then have same: "\<forall>f \<in> set (depFiles @ configFiles). fileExists rootA f = fileExists rootB f"
    by (simp only: map_eq_conv)
  have order: "readDir rootA \<noteq> readDir rootB"
    by (simp add: rootA_def rootB_def mkWorld_def)
  have eq: "DependencyFiles resA = DependencyFiles resB \<and> ConfigFiles resA = ConfigFiles resB"
    by (rule dependency_and_config_files_static_order
               [of rootA "newResult ''/srv/a''" "''/srv/a''" resA rootB "''/srv/b''" resB,
                THEN conjunct2, THEN conjunct2, THEN conjunct2, THEN mp])
       (intro conjI a b same)
  show ?thesis
    using eq present order unfolding a b sum.sel unfolding resA_def resB_def by (intro conjI) simp_all
qed

text \<open>
  C4, as amended. \<open>Analyze\<close> never reports a failure: for every root it returns a result
  (for the given project path) and a nil error; when the root cannot be listed, the result
  is still returned, and its \<open>TestDirFound\<close> is decided by the test directories alone.
\<close>

theorem Analyze_never_fails:
  "(\<exists>res. Analyze w p = Inr res \<and> ProjectRoot res = p)
   \<and> (\<forall>e res. readDir w = Inl e \<and> Analyze w p = Inr res
        \<longrightarrow> TestDirFound res = anyDirExists w testDirs)"
proof (intro conjI allI impI)
  show "\<exists>res. Analyze w p = Inr res \<and> ProjectRoot res = p"
    by (simp add: Analyze_passes analyzeProjectStructure_files detectDocker_frame
          detectFrameworks_frame detectLanguage_frame newResult_def)
next
  fix e res
  assume h: "readDir w = Inl e \<and> Analyze w p = Inr res"
  then show "TestDirFound res = anyDirExists w testDirs"
    by (auto simp: Analyze_passes analyzeProjectStructure_files findTestDirs_unlistable
          detectDocker_frame detectFrameworks_frame detectLanguage_frame newResult_def)
qed

theorem Analyze_never_fails_witness:
  "readDir unlistableRoot = Inl (PathError ''open /srv/app: permission denied'')
   \<and> (\<exists>res. Analyze unlistableRoot ''/srv/app'' = Inr res \<and> TestDirFound res)"
proof -
  have l: "readDir unlistableRoot = Inl (PathError ''open /srv/app: permission denied'')"
    by (simp add: unlistableRoot_def mkWorld_def)
  have t: "anyDirExists unlistableRoot testDirs" by code_simp
  from Analyze_never_fails [of unlistableRoot "''/srv/app''"] l t
  show ?thesis by blast
qed

text \<open>
  C4, as stated, fails: on a root whose listing fails (here every probe fails), \<open>Analyze\<close>
  returns a result, of language \<open>unknown\<close>, and no error.
\<close>

theorem Analyze_unlistable_root_counterexample:
  "readDir missingRoot = Inl (PathError ''open /srv/gone: no such file or directory'')
   \<and> Analyze missingRoot ''/srv/gone''
       = Inr ((newResult ''/srv/gone'')\<lparr>Language := ''unknown''\<rparr>)"
  by code_simp

end
